theory Spec2Isabelle
  imports Main "HOL-Library.Multiset"
begin

section \<open>JavaScript strings\<close>

text \<open>
  Strings are lists of bytes. Case folding and the whitespace class are the ASCII part of
  what \<^verbatim>\<open>String.prototype.toLowerCase\<close>, \<^verbatim>\<open>trim\<close> and the regular
  expression class \<^verbatim>\<open>\s\<close> do.
\<close>

definition toLowerCase_char :: "char \<Rightarrow> char" where
  "toLowerCase_char c =
     (let n = (of_char c :: nat) in if 65 \<le> n \<and> n \<le> 90 then char_of (n + 32) else c)"

definition toLowerCase :: "string \<Rightarrow> string" where
  "toLowerCase s = map toLowerCase_char s"

definition is_space :: "char \<Rightarrow> bool" where
  "is_space c = (let n = (of_char c :: nat) in (9 \<le> n \<and> n \<le> 13) \<or> n = 32)"

definition is_digit :: "char \<Rightarrow> bool" where
  "is_digit c = (let n = (of_char c :: nat) in 48 \<le> n \<and> n \<le> 57)"

definition trim :: "string \<Rightarrow> string" where
  "trim s = rev (dropWhile is_space (rev (dropWhile is_space s)))"

fun startsWith :: "string \<Rightarrow> string \<Rightarrow> bool" where
  "startsWith s [] = True"
| "startsWith [] (c # t) = False"
| "startsWith (d # s) (c # t) = (d = c \<and> startsWith s t)"

text \<open>\<^verbatim>\<open>s.includes(t)\<close>: \<open>t\<close> occurs in \<open>s\<close> as a contiguous substring.\<close>

fun includes_str :: "string \<Rightarrow> string \<Rightarrow> bool" where
  "includes_str [] t = (t = [])"
| "includes_str (c # s) t = (startsWith (c # s) t \<or> includes_str s t)"

text \<open>\<^verbatim>\<open>s < t\<close> on strings: the order of the first character that differs.\<close>

fun str_lt :: "string \<Rightarrow> string \<Rightarrow> bool" where
  "str_lt [] [] = False"
| "str_lt [] (d # t) = True"
| "str_lt (c # s) [] = False"
| "str_lt (c # s) (d # t) = ((of_char c :: nat) < of_char d \<or> (c = d \<and> str_lt s t))"

section \<open>JavaScript numbers and values\<close>

text \<open>
  The numbers of the program are integers, the two infinities and \<^verbatim>\<open>NaN\<close>: lengths,
  page numbers, what \<^verbatim>\<open>parseInt\<close> and \<^verbatim>\<open>Math.ceil\<close> return, and a quotient by
  zero. The operations are those of the floating-point numbers on these values.
\<close>

datatype number = Fin int | PosInfinity | NegInfinity | NaN

fun num_lt :: "number \<Rightarrow> number \<Rightarrow> bool" where
  "num_lt (Fin x) (Fin y) = (x < y)"
| "num_lt (Fin x) PosInfinity = True"
| "num_lt NegInfinity (Fin y) = True"
| "num_lt NegInfinity PosInfinity = True"
| "num_lt a b = False"

fun num_neg :: "number \<Rightarrow> number" where
  "num_neg (Fin x) = Fin (- x)"
| "num_neg PosInfinity = NegInfinity"
| "num_neg NegInfinity = PosInfinity"
| "num_neg NaN = NaN"

fun num_add :: "number \<Rightarrow> number \<Rightarrow> number" where
  "num_add NaN b = NaN"
| "num_add a NaN = NaN"
| "num_add (Fin x) (Fin y) = Fin (x + y)"
| "num_add PosInfinity NegInfinity = NaN"
| "num_add NegInfinity PosInfinity = NaN"
| "num_add PosInfinity b = PosInfinity"
| "num_add a PosInfinity = PosInfinity"
| "num_add NegInfinity b = NegInfinity"
| "num_add a NegInfinity = NegInfinity"

definition num_sub :: "number \<Rightarrow> number \<Rightarrow> number" where
  "num_sub a b = num_add a (num_neg b)"

fun num_sgn :: "number \<Rightarrow> int" where
  "num_sgn (Fin x) = sgn x"
| "num_sgn PosInfinity = 1"
| "num_sgn NegInfinity = - 1"
| "num_sgn NaN = 0"

text \<open>A product with an infinity has the sign of the factors; zero times infinity is \<^verbatim>\<open>NaN\<close>.\<close>

definition num_mul :: "number \<Rightarrow> number \<Rightarrow> number" where
  "num_mul a b =
     (case (a, b) of
        (Fin x, Fin y) \<Rightarrow> Fin (x * y)
      | _ \<Rightarrow> if num_sgn a * num_sgn b = 0 then NaN
             else if num_sgn a * num_sgn b > 0 then PosInfinity else NegInfinity)"

text \<open>\<^verbatim>\<open>Math.min\<close> and \<^verbatim>\<open>Math.max\<close> of two numbers: \<^verbatim>\<open>NaN\<close> if either is.\<close>

definition Math_min :: "number \<Rightarrow> number \<Rightarrow> number" where
  "Math_min a b = (if a = NaN \<or> b = NaN then NaN else if num_lt b a then b else a)"

definition Math_max :: "number \<Rightarrow> number \<Rightarrow> number" where
  "Math_max a b = (if a = NaN \<or> b = NaN then NaN else if num_lt a b then b else a)"

text \<open>
  \<^verbatim>\<open>Math.ceil(n / d)\<close> for an integer \<open>n\<close>: the quotient by zero is an infinity, or
  \<^verbatim>\<open>NaN\<close> when \<open>n\<close> is zero too; the quotient by an infinity is zero.
\<close>

definition ceil_quotient :: "int \<Rightarrow> number \<Rightarrow> number" where
  "ceil_quotient n d =
     (case d of
        Fin k \<Rightarrow>
          if k = 0 then (if n = 0 then NaN else if 0 < n then PosInfinity else NegInfinity)
          else Fin (- ((- n) div k))
      | PosInfinity \<Rightarrow> Fin 0
      | NegInfinity \<Rightarrow> Fin 0
      | NaN \<Rightarrow> NaN)"

text \<open>
  A value that is neither \<^verbatim>\<open>null\<close> nor \<^verbatim>\<open>undefined\<close>: a number, a string or a
  truth value. \<^verbatim>\<open>null\<close> and \<^verbatim>\<open>undefined\<close> are \<open>None\<close> of \<open>jsval option\<close>.
\<close>

datatype jsval = JNum number | JStr string | JBool bool

text \<open>
  The number a string converts to: \<open>0\<close> for a blank string, the value of an optionally
  signed decimal numeral or of \<^verbatim>\<open>Infinity\<close>, otherwise \<^verbatim>\<open>NaN\<close>. Numerals with a
  fraction, an exponent or a radix prefix are not integers or not decimal; they are read
  as \<^verbatim>\<open>NaN\<close> here.
\<close>

definition digits_value :: "string \<Rightarrow> int" where
  "digits_value ds = foldl (\<lambda>a c. 10 * a + (int (of_char c) - 48)) 0 ds"

definition string_to_number :: "string \<Rightarrow> number" where
  "string_to_number s =
     (case trim s of
        [] \<Rightarrow> Fin 0
      | c # r \<Rightarrow>
          let (sgn, ds) = (if c = CHR ''-'' then (- 1, r)
                           else if c = CHR ''+'' then (1, r) else (1, c # r))
          in if ds = ''Infinity'' then (if sgn < 0 then NegInfinity else PosInfinity)
             else if ds \<noteq> [] \<and> list_all is_digit ds then Fin (sgn * digits_value ds)
             else NaN)"

definition to_number :: "jsval \<Rightarrow> number" where
  "to_number v =
     (case v of JNum n \<Rightarrow> n | JBool b \<Rightarrow> Fin (if b then 1 else 0)
      | JStr s \<Rightarrow> string_to_number s)"

text \<open>
  \<^verbatim>\<open>a < b\<close>: two strings are compared as strings, anything else as numbers, and a
  comparison with \<^verbatim>\<open>NaN\<close> is false.
\<close>

definition js_lt :: "jsval \<Rightarrow> jsval \<Rightarrow> bool" where
  "js_lt a b =
     (case (a, b) of
        (JStr s, JStr t) \<Rightarrow> str_lt s t
      | _ \<Rightarrow> num_lt (to_number a) (to_number b))"

text \<open>The values that count as true in a condition, and \<^verbatim>\<open>isNaN\<close>.\<close>

definition truthy :: "jsval \<Rightarrow> bool" where
  "truthy v =
     (case v of JNum n \<Rightarrow> n \<noteq> Fin 0 \<and> n \<noteq> NaN | JStr s \<Rightarrow> s \<noteq> [] | JBool b \<Rightarrow> b)"

definition isNaN :: "jsval \<Rightarrow> bool" where
  "isNaN v = (to_number v = NaN)"

section \<open>Helpers\<close>

definition digit_char :: "int \<Rightarrow> char" where
  "digit_char d = char_of (48 + d)"

text \<open>The decimal digits of a number that is not negative.\<close>

function decimal :: "int \<Rightarrow> string" where
  "decimal n = (if n < 10 then [digit_char n] else decimal (n div 10) @ [digit_char (n mod 10)])"
  by pat_completeness auto
termination
  by (relation "measure nat") auto

declare decimal.simps [simp del]

text \<open>Thousands separators, on the reversed digit string.\<close>

fun group3 :: "string \<Rightarrow> string" where
  "group3 (a # b # c # d # r) = a # b # c # CHR '','' # group3 (d # r)"
| "group3 s = s"

text \<open>The infinity sign, in UTF-8.\<close>

definition infinity_sign :: string where
  "infinity_sign = [char_of (226 :: nat), char_of (136 :: nat), char_of (158 :: nat)]"

text \<open>
  \<^verbatim>\<open>Helpers.formatCurrency\<close>: \<^verbatim>\<open>'$0'\<close> for null, undefined and what \<^verbatim>\<open>isNaN\<close>
  holds of, otherwise the \<^verbatim>\<open>en-US\<close> currency format, without fraction digits, of the
  number that the value converts to.
\<close>

definition formatCurrency :: "jsval option \<Rightarrow> string" where
  "formatCurrency value =
     (case value of
        None \<Rightarrow> ''$0''
      | Some x \<Rightarrow>
          if isNaN x then ''$0''
          else (case to_number x of
                  Fin v \<Rightarrow> (if v < 0 then ''-'' else '''') @ ''$'' @ rev (group3 (rev (decimal \<bar>v\<bar>)))
                | PosInfinity \<Rightarrow> ''$'' @ infinity_sign
                | NegInfinity \<Rightarrow> ''-$'' @ infinity_sign
                | NaN \<Rightarrow> ''$0''))"

definition formatPhone :: "string \<Rightarrow> string" where
  "formatPhone phone =
     (if phone = [] then []
      else let cleaned = filter is_digit phone in
        if length cleaned = 10
        then ''('' @ take 3 cleaned @ '') '' @ take 3 (drop 3 cleaned) @ ''-'' @ drop 6 cleaned
        else phone)"

text \<open>
  \<^verbatim>\<open>Helpers.isValidEmail\<close> tests \<^verbatim>\<open>/^[^\s@]+@[^\s@]+\.[^\s@]+$/\<close>: the part
  before the first \<^verbatim>\<open>@\<close> is non-empty, and the rest has a dot with a character on
  each side of it; no character is whitespace and there is no second \<^verbatim>\<open>@\<close>.
\<close>

definition email_char :: "char \<Rightarrow> bool" where
  "email_char c = (\<not> is_space c \<and> c \<noteq> CHR ''@'')"

definition isValidEmail :: "string \<Rightarrow> bool" where
  "isValidEmail email =
     (let a = takeWhile (\<lambda>c. c \<noteq> CHR ''@'') email;
          r = dropWhile (\<lambda>c. c \<noteq> CHR ''@'') email
      in a \<noteq> [] \<and> list_all email_char a \<and>
         (case r of
            [] \<Rightarrow> False
          | _ # rest \<Rightarrow> list_all email_char rest \<and>
              list_ex (\<lambda>i. rest ! i = CHR ''.'') [1 ..< length rest - 1]))"

text \<open>
  \<^verbatim>\<open>Helpers.isValidPhone\<close> tests \<^verbatim>\<open>/^[\+]?[1-9][\d]{0,15}$/\<close> on the digits of
  the phone number; an empty phone number is accepted.
\<close>

definition isValidPhone :: "string \<Rightarrow> bool" where
  "isValidPhone phone =
     (if phone = [] then True
      else case filter is_digit phone of
             [] \<Rightarrow> False
           | d # ds \<Rightarrow> d \<noteq> CHR ''0'' \<and> length ds \<le> 15)"

section \<open>Employee\<close>

text \<open>
  An identifier is a number (the remote service and the fallback data use numbers) or a
  string (\<^verbatim>\<open>Helpers.generateId\<close>); \<^verbatim>\<open>===\<close> never identifies the two kinds.
\<close>

datatype ident = NumId int | StrId string

record employee =
  emp_id :: ident
  name :: string
  email :: string
  phone :: string
  department :: string
  position :: string
  salary :: "jsval option"
  hireDate :: string
  isActive :: bool
  avatar :: string
  fullName :: string
  displaySalary :: string
  formattedPhone :: string

text \<open>
  The salary is whatever was stored: the constructor stores a number, and
  \<^verbatim>\<open>update\<close> stores the value it is given, which may be \<^verbatim>\<open>null\<close>, \<^verbatim>\<open>NaN\<close> or a
  string.

  The argument of the constructor: an object in which any key may be absent. A salary
  or identifier that is absent, \<^verbatim>\<open>null\<close> or not true in a condition (\<^verbatim>\<open>0\<close>,
  \<^verbatim>\<open>NaN\<close>, the empty string) is replaced by the default, as \<^verbatim>\<open>data.salary || 0\<close>
  does; an empty string likewise.
\<close>

record employee_data =
  d_id :: "ident option"
  d_name :: "string option"
  d_email :: "string option"
  d_phone :: "string option"
  d_department :: "string option"
  d_position :: "string option"
  d_salary :: "jsval option"
  d_hireDate :: "string option"
  d_isActive :: "bool option"
  d_avatar :: "string option"

text \<open>What the constructor reads from outside: a generated identifier and the clock.\<close>

record env =
  generateId :: string
  now_iso :: string

definition ident_truthy :: "ident \<Rightarrow> bool" where
  "ident_truthy i = (case i of NumId n \<Rightarrow> n \<noteq> 0 | StrId s \<Rightarrow> s \<noteq> [])"

definition str_or :: "string option \<Rightarrow> string \<Rightarrow> string" where
  "str_or v dflt = (case v of None \<Rightarrow> dflt | Some s \<Rightarrow> if s = [] then dflt else s)"

definition hex_char :: "nat \<Rightarrow> char" where
  "hex_char d = (if d < 10 then char_of (48 + d) else char_of (55 + d))"

definition uri_unreserved :: "char \<Rightarrow> bool" where
  "uri_unreserved c =
     (let n = (of_char c :: nat) in
        (65 \<le> n \<and> n \<le> 90) \<or> (97 \<le> n \<and> n \<le> 122) \<or> (48 \<le> n \<and> n \<le> 57) \<or>
        c \<in> set ''-_.!~*'' \<or> n = 39 \<or> n = 40 \<or> n = 41)"

definition encodeURIComponent :: "string \<Rightarrow> string" where
  "encodeURIComponent s =
     concat (map (\<lambda>c. if uri_unreserved c then [c]
                       else [CHR ''%'', hex_char (of_char c div 16), hex_char (of_char c mod 16)]) s)"

text \<open>
  \<^verbatim>\<open>_generateAvatar\<close> computes the initials of the name and then does not use them: the
  result is the address below, a function of the name alone.
\<close>

definition generateAvatar :: "string \<Rightarrow> string" where
  "generateAvatar nm =
     ''https://ui-avatars.com/api/?name='' @ encodeURIComponent nm @
     ''&background=2563eb&color=fff&size=40''"

definition new_Employee :: "env \<Rightarrow> employee_data \<Rightarrow> employee" where
  "new_Employee ev data =
     (let nm = str_or (d_name data) [];
          ph = str_or (d_phone data) [];
          sal = (case d_salary data of
                   None \<Rightarrow> JNum (Fin 0)
                 | Some v \<Rightarrow> if truthy v then v else JNum (Fin 0))
      in \<lparr> emp_id = (case d_id data of
                       None \<Rightarrow> StrId (generateId ev)
                     | Some i \<Rightarrow> if ident_truthy i then i else StrId (generateId ev)),
            name = nm,
            email = str_or (d_email data) [],
            phone = ph,
            department = str_or (d_department data) [],
            position = str_or (d_position data) [],
            salary = Some sal,
            hireDate = str_or (d_hireDate data) (now_iso ev),
            isActive = (case d_isActive data of None \<Rightarrow> True | Some b \<Rightarrow> b),
            avatar = str_or (d_avatar data) (generateAvatar nm),
            fullName = nm,
            displaySalary = formatCurrency (Some sal),
            formattedPhone = formatPhone ph \<rparr>)"

text \<open>
  \<^verbatim>\<open>validate\<close> returns \<^verbatim>\<open>{isValid, errors}\<close>; the messages are collected in the
  order of the checks.
\<close>

definition validate :: "employee \<Rightarrow> bool \<times> string list" where
  "validate e =
     (let errors =
        (if name e = [] \<or> length (trim (name e)) < 2
         then [''Name must be at least 2 characters long''] else []) @
        (if email e = [] \<or> \<not> isValidEmail (email e)
         then [''Valid email address is required''] else []) @
        (if phone e \<noteq> [] \<and> \<not> isValidPhone (phone e)
         then [''Phone number format is invalid''] else []) @
        (if department e = [] \<or> length (trim (department e)) = 0
         then [''Department is required''] else []) @
        (if position e = [] \<or> length (trim (position e)) < 2
         then [''Position must be at least 2 characters long''] else []) @
        (case salary e of
           None \<Rightarrow> []
         | Some v \<Rightarrow>
             if truthy v \<and> (isNaN v \<or> js_lt v (JNum (Fin 0)))
             then [''Salary must be a positive number''] else [])
      in (errors = [], errors))"

text \<open>
  The argument of \<^verbatim>\<open>update\<close>: one optional slot for each key the record owns, and the
  keys it does not own, with their values. A salary may be set to any value, and to
  \<^verbatim>\<open>null\<close> (\<open>Some None\<close>).
\<close>

record employee_update =
  u_id :: "ident option"
  u_name :: "string option"
  u_email :: "string option"
  u_phone :: "string option"
  u_department :: "string option"
  u_position :: "string option"
  u_salary :: "jsval option option"
  u_hireDate :: "string option"
  u_isActive :: "bool option"
  u_avatar :: "string option"
  u_fullName :: "string option"
  u_displaySalary :: "string option"
  u_formattedPhone :: "string option"
  u_other :: "(string \<times> jsval) list"

definition merge :: "'a option \<Rightarrow> 'a \<Rightarrow> 'a" where
  "merge v old = (case v of None \<Rightarrow> old | Some x \<Rightarrow> x)"

text \<open>
  \<^verbatim>\<open>Employee.update\<close>: every key of the data that the record owns, except
  \<^verbatim>\<open>id\<close>, is assigned; then the computed properties are assigned again, over whatever
  the data held for them.
\<close>

definition update :: "employee_update \<Rightarrow> employee \<Rightarrow> employee" where
  "update data e =
     (let m = e \<lparr> name := merge (u_name data) (name e),
                  email := merge (u_email data) (email e),
                  phone := merge (u_phone data) (phone e),
                  department := merge (u_department data) (department e),
                  position := merge (u_position data) (position e),
                  salary := merge (u_salary data) (salary e),
                  hireDate := merge (u_hireDate data) (hireDate e),
                  isActive := merge (u_isActive data) (isActive e),
                  avatar := merge (u_avatar data) (avatar e),
                  fullName := merge (u_fullName data) (fullName e),
                  displaySalary := merge (u_displaySalary data) (displaySalary e),
                  formattedPhone := merge (u_formattedPhone data) (formattedPhone e) \<rparr>
      in m \<lparr> fullName := name m,
             displaySalary := formatCurrency (salary m),
             formattedPhone := formatPhone (phone m),
             avatar := generateAvatar (name m) \<rparr>)"

text \<open>
  \<^verbatim>\<open>matchesSearch\<close>: an empty term matches; otherwise some non-empty field among
  name, email, department, position and phone contains the term, both in lower case.
\<close>

definition matchesSearch :: "employee \<Rightarrow> string \<Rightarrow> bool" where
  "matchesSearch e searchTerm =
     (if searchTerm = [] then True
      else let term = toLowerCase searchTerm in
        list_ex (\<lambda>field. field \<noteq> [] \<and> includes_str (toLowerCase field) term)
          [name e, email e, department e, position e, phone e])"

section \<open>Sorting\<close>

text \<open>\<^verbatim>\<open>a[property]\<close>; \<open>None\<close> is \<^verbatim>\<open>null\<close> or \<^verbatim>\<open>undefined\<close>.\<close>

definition getProperty :: "employee \<Rightarrow> string \<Rightarrow> jsval option" where
  "getProperty e property =
     (if property = ''id'' then Some (case emp_id e of NumId n \<Rightarrow> JNum (Fin n) | StrId s \<Rightarrow> JStr s)
      else if property = ''name'' then Some (JStr (name e))
      else if property = ''email'' then Some (JStr (email e))
      else if property = ''phone'' then Some (JStr (phone e))
      else if property = ''department'' then Some (JStr (department e))
      else if property = ''position'' then Some (JStr (position e))
      else if property = ''salary'' then salary e
      else if property = ''hireDate'' then Some (JStr (hireDate e))
      else if property = ''isActive'' then Some (JBool (isActive e))
      else if property = ''avatar'' then Some (JStr (avatar e))
      else if property = ''fullName'' then Some (JStr (fullName e))
      else if property = ''displaySalary'' then Some (JStr (displaySalary e))
      else if property = ''formattedPhone'' then Some (JStr (formattedPhone e))
      else None)"

definition lower_val :: "jsval \<Rightarrow> jsval" where
  "lower_val v = (case v of JStr s \<Rightarrow> JStr (toLowerCase s) | _ \<Rightarrow> v)"

text \<open>The comparison function that \<^verbatim>\<open>Helpers.sortByProperty\<close> passes to the sort.\<close>

definition compareFn :: "string \<Rightarrow> string \<Rightarrow> employee \<Rightarrow> employee \<Rightarrow> int" where
  "compareFn property direction a b =
     (case (getProperty a property, getProperty b property) of
        (None, None) \<Rightarrow> 0
      | (None, Some _) \<Rightarrow> (if direction = ''asc'' then 1 else - 1)
      | (Some _, None) \<Rightarrow> (if direction = ''asc'' then - 1 else 1)
      | (Some x, Some y) \<Rightarrow>
          let aVal = lower_val x; bVal = lower_val y in
          if direction = ''asc''
          then (if js_lt aVal bVal then - 1 else if js_lt bVal aVal then 1 else 0)
          else (if js_lt bVal aVal then - 1 else if js_lt aVal bVal then 1 else 0))"

text \<open>
  \<^verbatim>\<open>Array.prototype.sort\<close> is stable: it puts \<open>a\<close> after \<open>b\<close> only where the
  comparison function is positive on \<open>(a, b)\<close>, and otherwise keeps the order of the
  array. Insertion from the right computes that arrangement. Where the comparison
  function is no order (a \<^verbatim>\<open>NaN\<close> compares as equal to everything) the language leaves
  the arrangement to the engine; insertion then keeps an array in which every element
  compares as equal to its neighbours, as a search for sorted runs does.
\<close>

fun insert_by :: "('a \<Rightarrow> 'a \<Rightarrow> int) \<Rightarrow> 'a \<Rightarrow> 'a list \<Rightarrow> 'a list" where
  "insert_by cmp x [] = [x]"
| "insert_by cmp x (y # ys) = (if cmp x y \<le> 0 then x # y # ys else y # insert_by cmp x ys)"

definition sort_by :: "('a \<Rightarrow> 'a \<Rightarrow> int) \<Rightarrow> 'a list \<Rightarrow> 'a list" where
  "sort_by cmp xs = foldr (insert_by cmp) xs []"

definition sortByProperty :: "employee list \<Rightarrow> string \<Rightarrow> string \<Rightarrow> employee list" where
  "sortByProperty array property direction = sort_by (compareFn property direction) array"

section \<open>EmployeeCollection\<close>

text \<open>
  The state of the collection. The observers are callbacks that re-read the collection;
  \<open>notified\<close> counts the calls of \<^verbatim>\<open>notifyObservers\<close>. The array holds distinct
  objects, so that a change to one employee is a change to one element.
\<close>

record collection =
  employees :: "employee list"
  filteredEmployees :: "employee list"
  currentPage :: number
  pageSize :: number
  sortField :: string
  sortDirection :: string
  searchTerm :: string
  departmentFilters :: "string list"
  notified :: nat

definition new_collection :: collection where
  "new_collection =
     \<lparr> employees = [], filteredEmployees = [], currentPage = Fin 1, pageSize = Fin 25,
       sortField = ''name'', sortDirection = ''asc'', searchTerm = [],
       departmentFilters = [], notified = 0 \<rparr>"

definition notifyObservers :: "collection \<Rightarrow> collection" where
  "notifyObservers c = c \<lparr> notified := Suc (notified c) \<rparr>"

definition applyFilters :: "collection \<Rightarrow> collection" where
  "applyFilters c =
     (let filtered0 = filter isActive (employees c);
          filtered1 = (if searchTerm c \<noteq> []
                       then filter (\<lambda>emp. matchesSearch emp (searchTerm c)) filtered0
                       else filtered0);
          filtered2 = (if length (departmentFilters c) > 0
                       then filter (\<lambda>emp. department emp \<in> set (departmentFilters c)) filtered1
                       else filtered1)
      in c \<lparr> filteredEmployees := sortByProperty filtered2 (sortField c) (sortDirection c) \<rparr>)"

definition findById :: "collection \<Rightarrow> ident \<Rightarrow> employee option" where
  "findById c i = find (\<lambda>emp. emp_id emp = i) (employees c)"

definition findByEmail :: "collection \<Rightarrow> string \<Rightarrow> employee option" where
  "findByEmail c em = find (\<lambda>emp. toLowerCase (email emp) = toLowerCase em) (employees c)"

datatype error = DuplicateEmail | RequestFailed string

text \<open>The argument of \<^verbatim>\<open>addEmployee\<close> and the elements given to \<^verbatim>\<open>loadEmployees\<close>.\<close>

datatype employee_arg = Instance employee | Data employee_data

definition to_Employee :: "env \<Rightarrow> employee_arg \<Rightarrow> employee" where
  "to_Employee ev a = (case a of Instance e \<Rightarrow> e | Data d \<Rightarrow> new_Employee ev d)"

text \<open>
  An operation that can throw returns the error or its result, and the state it leaves.
\<close>

definition addEmployee :: "env \<Rightarrow> employee_arg \<Rightarrow> collection \<Rightarrow> (error + employee) \<times> collection" where
  "addEmployee ev employeeData c =
     (let employee = to_Employee ev employeeData in
      if findByEmail c (email employee) \<noteq> None then (Inl DuplicateEmail, c)
      else (Inr employee,
            notifyObservers (applyFilters (c \<lparr> employees := employees c @ [employee] \<rparr>))))"

text \<open>The first element that satisfies \<open>P\<close>, changed by \<open>f\<close>, or removed.\<close>

fun map_first :: "('a \<Rightarrow> bool) \<Rightarrow> ('a \<Rightarrow> 'a) \<Rightarrow> 'a list \<Rightarrow> 'a list" where
  "map_first P f [] = []"
| "map_first P f (x # xs) = (if P x then f x # xs else x # map_first P f xs)"

fun remove_first :: "('a \<Rightarrow> bool) \<Rightarrow> 'a list \<Rightarrow> 'a list" where
  "remove_first P [] = []"
| "remove_first P (x # xs) = (if P x then xs else x # remove_first P xs)"

text \<open>
  \<^verbatim>\<open>updateEmployee\<close> returns \<^verbatim>\<open>null\<close> (\<open>Inr None\<close>) when no employee has the
  identifier.
\<close>

definition updateEmployee ::
  "ident \<Rightarrow> employee_update \<Rightarrow> collection \<Rightarrow> (error + employee option) \<times> collection" where
  "updateEmployee i data c =
     (case findById c i of
        None \<Rightarrow> (Inr None, c)
      | Some employee \<Rightarrow>
          if (case u_email data of
                None \<Rightarrow> False
              | Some em \<Rightarrow> em \<noteq> [] \<and> em \<noteq> email employee \<and> findByEmail c em \<noteq> None)
          then (Inl DuplicateEmail, c)
          else (Inr (Some (update data employee)),
                notifyObservers (applyFilters
                  (c \<lparr> employees := map_first (\<lambda>emp. emp_id emp = i) (update data) (employees c) \<rparr>))))"

definition removeEmployee :: "ident \<Rightarrow> collection \<Rightarrow> bool \<times> collection" where
  "removeEmployee i c =
     (if \<not> list_ex (\<lambda>emp. emp_id emp = i) (employees c) then (False, c)
      else (True,
            notifyObservers (applyFilters
              (c \<lparr> employees := remove_first (\<lambda>emp. emp_id emp = i) (employees c) \<rparr>))))"

definition deactivateEmployee :: "ident \<Rightarrow> collection \<Rightarrow> bool \<times> collection" where
  "deactivateEmployee i c =
     (case findById c i of
        None \<Rightarrow> (False, c)
      | Some employee \<Rightarrow>
          (True,
           notifyObservers (applyFilters
             (c \<lparr> employees := map_first (\<lambda>emp. emp_id emp = i)
                                 (\<lambda>emp. emp \<lparr> isActive := False \<rparr>) (employees c) \<rparr>))))"

definition setSearchTerm :: "string \<Rightarrow> collection \<Rightarrow> collection" where
  "setSearchTerm term c =
     notifyObservers (applyFilters (c \<lparr> searchTerm := term, currentPage := Fin 1 \<rparr>))"

text \<open>An argument that is not an array (\<open>None\<close>) clears the department filters.\<close>

definition setDepartmentFilters :: "string list option \<Rightarrow> collection \<Rightarrow> collection" where
  "setDepartmentFilters departments c =
     notifyObservers (applyFilters
       (c \<lparr> departmentFilters := (case departments of Some ds \<Rightarrow> ds | None \<Rightarrow> []),
            currentPage := Fin 1 \<rparr>))"

text \<open>The direction is \<^verbatim>\<open>'asc'\<close> when the caller gives none.\<close>

definition setSorting :: "string \<Rightarrow> string option \<Rightarrow> collection \<Rightarrow> collection" where
  "setSorting field direction c =
     notifyObservers (applyFilters
       (c \<lparr> sortField := field,
            sortDirection := (case direction of None \<Rightarrow> ''asc'' | Some d \<Rightarrow> d) \<rparr>))"

text \<open>\<open>n\<close> is the number that \<^verbatim>\<open>parseInt(size)\<close> reads: an integer or \<^verbatim>\<open>NaN\<close>.\<close>

definition setPageSize :: "number \<Rightarrow> collection \<Rightarrow> collection" where
  "setPageSize n c = notifyObservers (c \<lparr> pageSize := n, currentPage := Fin 1 \<rparr>)"

text \<open>\<^verbatim>\<open>Math.ceil(this.filteredEmployees.length / this.pageSize)\<close>.\<close>

definition getTotalPages :: "collection \<Rightarrow> number" where
  "getTotalPages c = ceil_quotient (int (length (filteredEmployees c))) (pageSize c)"

definition setCurrentPage :: "number \<Rightarrow> collection \<Rightarrow> collection" where
  "setCurrentPage page c =
     (let totalPages = getTotalPages c in
      notifyObservers (c \<lparr> currentPage := Math_max (Fin 1) (Math_min page totalPages) \<rparr>))"

record pagination_info =
  pi_currentPage :: number
  pi_totalPages :: number
  pi_totalItems :: number
  pi_pageSize :: number
  pi_startIndex :: number
  pi_endIndex :: number
  pi_hasNext :: bool
  pi_hasPrevious :: bool

definition getPaginationInfo :: "collection \<Rightarrow> pagination_info" where
  "getPaginationInfo c =
     (let totalItems = Fin (int (length (filteredEmployees c)));
          totalPages = getTotalPages c;
          startIndex = num_add (num_mul (num_sub (currentPage c) (Fin 1)) (pageSize c)) (Fin 1);
          endIndex = Math_min (num_sub (num_add startIndex (pageSize c)) (Fin 1)) totalItems
      in \<lparr> pi_currentPage = currentPage c,
            pi_totalPages = totalPages,
            pi_totalItems = totalItems,
            pi_pageSize = pageSize c,
            pi_startIndex = (if num_lt (Fin 0) totalItems then startIndex else Fin 0),
            pi_endIndex = (if num_lt (Fin 0) totalItems then endIndex else Fin 0),
            pi_hasNext = num_lt (currentPage c) totalPages,
            pi_hasPrevious = num_lt (Fin 1) (currentPage c) \<rparr>)"

text \<open>
  \<^verbatim>\<open>loadEmployees\<close>: the \<open>k\<close>-th element that is not an \<^verbatim>\<open>Employee\<close> is
  constructed in the environment \<open>evs k\<close>.
\<close>

definition loadEmployees :: "(nat \<Rightarrow> env) \<Rightarrow> employee_arg list \<Rightarrow> collection \<Rightarrow> collection" where
  "loadEmployees evs employeesData c =
     notifyObservers (applyFilters
       (c \<lparr> employees := map (\<lambda>(k, d). to_Employee (evs k) d) (enumerate 0 employeesData) \<rparr>))"

definition clear :: "collection \<Rightarrow> collection" where
  "clear c = notifyObservers (c \<lparr> employees := [], filteredEmployees := [], currentPage := Fin 1 \<rparr>)"

definition clearAllFilters :: "collection \<Rightarrow> collection" where
  "clearAllFilters c =
     notifyObservers (applyFilters
       (c \<lparr> searchTerm := [], departmentFilters := [], currentPage := Fin 1 \<rparr>))"

section \<open>EmployeeAPI\<close>

text \<open>A user record of the remote service, as far as \<^verbatim>\<open>fromApiData\<close> reads it.\<close>

record api_user =
  a_id :: "ident option"
  a_name :: "string option"
  a_email :: "string option"
  a_phone :: "string option"

text \<open>
  The four random draws of \<^verbatim>\<open>fromApiData\<close>, each already multiplied and rounded
  down: two indices, the salary offset and the hire date. An index is below the length of
  its array, which the reduction modulo the length expresses.
\<close>

record draws =
  r_department :: nat
  r_position :: nat
  r_salary :: nat
  r_hireDate :: string

definition departments :: "string list" where
  "departments = [''Engineering'', ''Marketing'', ''Sales'', ''HR'', ''Finance'', ''Operations'']"

definition positions :: "string \<Rightarrow> string list" where
  "positions d =
     (if d = ''Engineering''
      then [''Software Engineer'', ''Senior Developer'', ''Tech Lead'', ''DevOps Engineer'']
      else if d = ''Marketing''
      then [''Marketing Manager'', ''Content Creator'', ''SEO Specialist'', ''Brand Manager'']
      else if d = ''Sales''
      then [''Sales Representative'', ''Account Manager'', ''Sales Director'',
            ''Business Development'']
      else if d = ''HR''
      then [''HR Manager'', ''Recruiter'', ''HR Specialist'', ''People Operations'']
      else if d = ''Finance''
      then [''Financial Analyst'', ''Accountant'', ''Finance Manager'', ''Controller'']
      else [''Operations Manager'', ''Project Manager'', ''Operations Analyst'', ''Coordinator''])"

definition fromApiData :: "draws \<Rightarrow> env \<Rightarrow> api_user \<Rightarrow> employee" where
  "fromApiData rnd ev apiData =
     (let randomDepartment = departments ! (r_department rnd mod length departments);
          departmentPositions = positions randomDepartment;
          randomPosition = departmentPositions ! (r_position rnd mod length departmentPositions);
          baseSalary = int (r_salary rnd mod 80000) + 40000
      in new_Employee ev
           \<lparr> d_id = a_id apiData, d_name = a_name apiData, d_email = a_email apiData,
             d_phone = a_phone apiData, d_department = Some randomDepartment,
             d_position = Some randomPosition, d_salary = Some (JNum (Fin baseSalary)),
             d_hireDate = Some (r_hireDate rnd), d_isActive = Some True, d_avatar = None \<rparr>)"

definition mock :: "int \<Rightarrow> string \<Rightarrow> string \<Rightarrow> string \<Rightarrow> string \<Rightarrow> string \<Rightarrow> int \<Rightarrow> string
    \<Rightarrow> employee_data" where
  "mock i nm em ph dept pos sal hired =
     \<lparr> d_id = Some (NumId i), d_name = Some nm, d_email = Some em, d_phone = Some ph,
       d_department = Some dept, d_position = Some pos, d_salary = Some (JNum (Fin sal)),
       d_hireDate = Some hired, d_isActive = None, d_avatar = None \<rparr>"

definition mockData :: "employee_data list" where
  "mockData =
     [mock 1 ''John Doe'' ''john.doe@company.com'' ''(555) 123-4567'' ''Engineering''
        ''Senior Software Engineer'' 95000 ''2021-03-15T00:00:00.000Z'',
      mock 2 ''Jane Smith'' ''jane.smith@company.com'' ''(555) 234-5678'' ''Marketing''
        ''Marketing Manager'' 75000 ''2020-08-22T00:00:00.000Z'',
      mock 3 ''Mike Johnson'' ''mike.johnson@company.com'' ''(555) 345-6789'' ''Sales''
        ''Sales Representative'' 60000 ''2022-01-10T00:00:00.000Z'',
      mock 4 ''Sarah Wilson'' ''sarah.wilson@company.com'' ''(555) 456-7890'' ''HR''
        ''HR Manager'' 70000 ''2019-11-05T00:00:00.000Z'',
      mock 5 ''David Brown'' ''david.brown@company.com'' ''(555) 567-8901'' ''Finance''
        ''Financial Analyst'' 65000 ''2021-09-18T00:00:00.000Z'']"

definition getMockEmployees :: "(nat \<Rightarrow> env) \<Rightarrow> employee list" where
  "getMockEmployees evs = map (\<lambda>(k, d). new_Employee (evs k) d) (enumerate 0 mockData)"

text \<open>
  \<^verbatim>\<open>fetchEmployees\<close>, given what \<^verbatim>\<open>fetchUsers\<close> did: it threw (\<open>Inl\<close>) or
  returned the users. The \<open>k\<close>-th user is converted with the draws \<open>rnd k\<close>.
\<close>

definition fetchEmployees ::
  "(nat \<Rightarrow> draws) \<Rightarrow> (nat \<Rightarrow> env) \<Rightarrow> error + api_user list \<Rightarrow> error + employee list" where
  "fetchEmployees rnd evs fetched =
     (case fetched of
        Inr users \<Rightarrow> Inr (map (\<lambda>(k, u). fromApiData (rnd k) (evs k) u) (enumerate 0 users))
      | Inl err \<Rightarrow> Inr (getMockEmployees evs))"

section \<open>The view and the orders that the theorems speak of\<close>

text \<open>
  The filtered and sorted view as a function of the stored employees and the query state:
  the active employees that match the search term and whose department is among the
  department filters (any department, when there is no filter), sorted by the sort field.
\<close>

definition view_of :: "collection \<Rightarrow> employee list" where
  "view_of c =
     sortByProperty
       (filter (\<lambda>e. isActive e \<and> matchesSearch e (searchTerm c) \<and>
                   (departmentFilters c = [] \<or> department e \<in> set (departmentFilters c)))
          (employees c))
       (sortField c) (sortDirection c)"




section \<open>Example data\<close>

definition envs :: "nat \<Rightarrow> env" where
  "envs k = \<lparr> generateId = ''m1x'' @ decimal (int k), now_iso = ''2024-05-01T09:00:00.000Z'' \<rparr>"

definition person :: "int \<Rightarrow> string \<Rightarrow> string \<Rightarrow> string \<Rightarrow> employee_data" where
  "person i nm em dept =
     \<lparr> d_id = Some (NumId i), d_name = Some nm, d_email = Some em, d_phone = None,
       d_department = Some dept, d_position = None, d_salary = None,
       d_hireDate = None, d_isActive = None, d_avatar = None \<rparr>"

text \<open>An object with a name and a department only.\<close>

definition named :: "string \<Rightarrow> string \<Rightarrow> employee_data" where
  "named nm dept =
     \<lparr> d_id = None, d_name = Some nm, d_email = None, d_phone = None,
       d_department = Some dept, d_position = None, d_salary = None,
       d_hireDate = None, d_isActive = None, d_avatar = None \<rparr>"

definition no_update :: employee_update where
  "no_update =
     \<lparr> u_id = None, u_name = None, u_email = None, u_phone = None, u_department = None,
       u_position = None, u_salary = None, u_hireDate = None, u_isActive = None,
       u_avatar = None, u_fullName = None, u_displaySalary = None,
       u_formattedPhone = None, u_other = [] \<rparr>"

text \<open>A collection loaded with two employees, and the same with one employee a page.\<close>

definition two_people :: collection where
  "two_people =
     loadEmployees envs [Data (person 1 ''Ann'' ''ann@x.com'' ''Eng''),
                         Data (person 2 ''Ben'' ''ben@x.com'' ''Sales'')] new_collection"

definition on_page_two :: collection where
  "on_page_two = setCurrentPage (Fin 2) (setPageSize (Fin 1) two_people)"

text \<open>Ben is deactivated; Ann earns 5 and Ben's salary is set to \<^verbatim>\<open>null\<close>.\<close>

definition ben_inactive :: collection where
  "ben_inactive = snd (deactivateEmployee (NumId 2) two_people)"






definition ann_ben :: "(nat \<Rightarrow> env) \<Rightarrow> collection" where
  "ann_ben evs =
     loadEmployees evs [Data (named ''Ann'' ''Eng''), Data (named ''Ben'' ''Sales'')]
       new_collection"

text \<open>Draws, an update and the first fallback employee, for the examples.\<close>

definition example_draws :: draws where
  "example_draws =
     \<lparr> r_department = 2, r_position = 1, r_salary = 12345,
       r_hireDate = ''2023-02-03T00:00:00.000Z'' \<rparr>"

definition jo_update :: employee_update where
  "jo_update =
     no_update \<lparr> u_id := Some (NumId 9), u_name := Some ''Jo Doe'',
                 u_salary := Some (Some (JNum (Fin 1200))),
                 u_other := [(''nickname'', JStr ''jd'')] \<rparr>"

definition john :: employee where
  "john = new_Employee (envs 0) (hd mockData)"

section \<open>Auxiliary facts\<close>

lemma startsWith_iff: "startsWith s t \<longleftrightarrow> (\<exists>q. s = t @ q)"
  by (induction s t rule: startsWith.induct) auto

lemma includes_str_iff: "includes_str s t \<longleftrightarrow> (\<exists>p q. s = p @ t @ q)"
proof (induction s)
  case Nil
  then show ?case by auto
next
  case (Cons c s)
  show ?case
  proof
    assume "includes_str (c # s) t"
    then consider "startsWith (c # s) t" | "includes_str s t" by auto
    then show "\<exists>p q. c # s = p @ t @ q"
    proof cases
      case 1
      then obtain q where "c # s = t @ q" using startsWith_iff by blast
      then have "c # s = [] @ t @ q" by simp
      then show ?thesis by blast
    next
      case 2
      then obtain p q where "s = p @ t @ q" using Cons.IH by blast
      then have "c # s = (c # p) @ t @ q" by simp
      then show ?thesis by blast
    qed
  next
    assume "\<exists>p q. c # s = p @ t @ q"
    then obtain p q where pq: "c # s = p @ t @ q" by blast
    show "includes_str (c # s) t"
    proof (cases p)
      case Nil
      with pq have "startsWith (c # s) t" using startsWith_iff by auto
      then show ?thesis by simp
    next
      case (Cons d p')
      with pq have "s = p' @ t @ q" by simp
      then have "includes_str s t" using Cons.IH by blast
      then show ?thesis by simp
    qed
  qed
qed

text \<open>
  \<^verbatim>\<open>isValidEmail\<close> accepts the strings that the regular expression describes: a part
  before \<^verbatim>\<open>@\<close>, a part up to a dot and a part after it, each non-empty and free of
  whitespace and of \<^verbatim>\<open>@\<close>.
\<close>

lemma email_char_dot: "email_char CHR ''.''"
  by (simp add: email_char_def is_space_def)

lemma isValidEmail_parts:
  assumes ne: "a \<noteq> []" "b \<noteq> []" "c \<noteq> []"
    and ok: "list_all email_char a" "list_all email_char b" "list_all email_char c"
  shows "isValidEmail (a @ CHR ''@'' # b @ CHR ''.'' # c)"
proof -
  have na: "\<forall>x\<in>set a. x \<noteq> CHR ''@''" using ok(1) by (simp add: list_all_iff email_char_def)
  have t: "takeWhile (\<lambda>c. c \<noteq> CHR ''@'') (a @ CHR ''@'' # b @ CHR ''.'' # c) = a"
    using na by (simp add: takeWhile_append2)
  have d: "dropWhile (\<lambda>c. c \<noteq> CHR ''@'') (a @ CHR ''@'' # b @ CHR ''.'' # c)
             = CHR ''@'' # b @ CHR ''.'' # c"
    using na by (simp add: dropWhile_append2)
  have all: "list_all email_char (b @ CHR ''.'' # c)"
    using ok email_char_dot by simp
  have "(b @ CHR ''.'' # c) ! length b = CHR ''.''" by (simp add: nth_append)
  moreover have "1 \<le> length b" using ne by (cases b) simp_all
  moreover have "length b < length (b @ CHR ''.'' # c) - 1" using ne by (cases c) simp_all
  ultimately have "\<exists>i\<in>set [1 ..< length (b @ CHR ''.'' # c) - 1]. (b @ CHR ''.'' # c) ! i = CHR ''.''"
    by (intro bexI [of _ "length b"]) simp_all
  then have ex: "list_ex (\<lambda>i. (b @ CHR ''.'' # c) ! i = CHR ''.'') [1 ..< length (b @ CHR ''.'' # c) - 1]"
    by (simp only: list_ex_iff)
  show ?thesis
    unfolding isValidEmail_def Let_def t d using ne(1) ok(1) all ex by simp
qed

lemma isValidEmail_split:
  assumes v: "isValidEmail s"
  shows "\<exists>a b c. s = a @ CHR ''@'' # b @ CHR ''.'' # c \<and> a \<noteq> [] \<and> b \<noteq> [] \<and> c \<noteq> [] \<and>
        list_all email_char a \<and> list_all email_char b \<and> list_all email_char c"
proof -
  define a where "a = takeWhile (\<lambda>c. c \<noteq> CHR ''@'') s"
  define r where "r = dropWhile (\<lambda>c. c \<noteq> CHR ''@'') s"
  have s: "s = a @ r" by (simp add: a_def r_def)
  have v': "a \<noteq> [] \<and> list_all email_char a \<and>
      (case r of [] \<Rightarrow> False
       | _ # rest \<Rightarrow> list_all email_char rest \<and>
           list_ex (\<lambda>i. rest ! i = CHR ''.'') [1 ..< length rest - 1])"
    using v unfolding isValidEmail_def Let_def a_def r_def .
  then have a: "a \<noteq> []" "list_all email_char a" by simp_all
  from v' obtain x rest where r: "r = x # rest" by (cases r) simp_all
  have "hd r = CHR ''@''"
    using hd_dropWhile [of "\<lambda>c. c \<noteq> CHR ''@''" s] r unfolding r_def by simp
  with r have x: "x = CHR ''@''" by simp
  from v' r have rest: "list_all email_char rest"
    and ex: "list_ex (\<lambda>i. rest ! i = CHR ''.'') [1 ..< length rest - 1]"
    by simp_all
  from ex obtain i where i: "1 \<le> i" "i < length rest - 1" "rest ! i = CHR ''.''"
    unfolding list_ex_iff by auto
  then have split: "rest = take i rest @ CHR ''.'' # drop (Suc i) rest"
    using id_take_nth_drop [of i rest] by simp
  have b: "take i rest \<noteq> []" using i by auto
  have c: "drop (Suc i) rest \<noteq> []" using i by auto
  have "set (take i rest) \<subseteq> set rest" by (rule set_take_subset)
  with rest have okb: "list_all email_char (take i rest)" by (auto simp: list_all_iff)
  have "set (drop (Suc i) rest) \<subseteq> set rest" by (rule set_drop_subset)
  with rest have okc: "list_all email_char (drop (Suc i) rest)" by (auto simp: list_all_iff)
  have eq: "s = a @ CHR ''@'' # take i rest @ CHR ''.'' # drop (Suc i) rest"
    using s r x split by simp
  show ?thesis
    by (intro exI [of _ a] exI [of _ "take i rest"] exI [of _ "drop (Suc i) rest"] conjI)
      (rule eq a b c okb okc)+
qed

lemma isValidEmail_iff:
  "isValidEmail s \<longleftrightarrow>
     (\<exists>a b c. s = a @ CHR ''@'' # b @ CHR ''.'' # c \<and> a \<noteq> [] \<and> b \<noteq> [] \<and> c \<noteq> [] \<and>
        list_all email_char a \<and> list_all email_char b \<and> list_all email_char c)"
proof
  assume "isValidEmail s"
  then show "\<exists>a b c. s = a @ CHR ''@'' # b @ CHR ''.'' # c \<and> a \<noteq> [] \<and> b \<noteq> [] \<and> c \<noteq> [] \<and>
        list_all email_char a \<and> list_all email_char b \<and> list_all email_char c"
    by (rule isValidEmail_split)
next
  assume "\<exists>a b c. s = a @ CHR ''@'' # b @ CHR ''.'' # c \<and> a \<noteq> [] \<and> b \<noteq> [] \<and> c \<noteq> [] \<and>
        list_all email_char a \<and> list_all email_char b \<and> list_all email_char c"
  then show "isValidEmail s"
    by (elim exE conjE) (simp add: isValidEmail_parts)
qed

lemma toLowerCase_Nil_iff: "toLowerCase s = [] \<longleftrightarrow> s = []"
  by (simp add: toLowerCase_def)

text \<open>The search predicate, without the guards against empty fields.\<close>

lemma matchesSearch_iff:
  "matchesSearch e term \<longleftrightarrow>
     term = [] \<or>
     (\<exists>field \<in> set [name e, email e, department e, position e, phone e].
        \<exists>p q. toLowerCase field = p @ toLowerCase term @ q)"
proof (cases "term = []")
  case True
  then show ?thesis by (simp add: matchesSearch_def)
next
  case False
  then have ne: "toLowerCase term \<noteq> []" by (simp add: toLowerCase_Nil_iff)
  have "field \<noteq> [] \<and> includes_str (toLowerCase field) (toLowerCase term)
          \<longleftrightarrow> (\<exists>p q. toLowerCase field = p @ toLowerCase term @ q)" for field
    using ne by (cases "field = []") (auto simp: includes_str_iff toLowerCase_def)
  then show ?thesis using False by (simp add: matchesSearch_def Let_def)
qed

lemma mset_insert_by: "mset (insert_by cmp x ys) = add_mset x (mset ys)"
  by (induction ys) auto

lemma mset_sort_by: "mset (sort_by cmp xs) = mset xs"
  unfolding sort_by_def by (induction xs) (auto simp: mset_insert_by)










lemma findByEmail_iff:
  "findByEmail c em \<noteq> None \<longleftrightarrow>
     (\<exists>x \<in> set (employees c). toLowerCase (email x) = toLowerCase em)"
  unfolding findByEmail_def find_None_iff by blast

text \<open>\<^verbatim>\<open>applyFilters\<close> computes the view and changes nothing else.\<close>

lemma applyFilters_view: "applyFilters c = c \<lparr> filteredEmployees := view_of c \<rparr>"
proof -
  have "filter (\<lambda>emp. matchesSearch emp []) xs = xs" for xs :: "employee list"
    by (simp add: matchesSearch_def)
  then show ?thesis
    by (cases "searchTerm c = []"; cases "departmentFilters c = []")
       (simp_all add: applyFilters_def view_of_def Let_def matchesSearch_def)
qed

text \<open>
  Where the page is chosen or reset, it is in range: \<^verbatim>\<open>setCurrentPage\<close> clamps it, and
  page 1 is in range whatever the number of pages is.
\<close>

lemma setCurrentPage_in_range:
  assumes "pageSize c = Fin k" and "0 < k"
  shows "\<exists>q n. currentPage (setCurrentPage (Fin p) c) = Fin q \<and>
           getTotalPages (setCurrentPage (Fin p) c) = Fin n \<and> 1 \<le> q \<and> q \<le> max 1 n"
  using assms
  by (simp add: setCurrentPage_def getTotalPages_def notifyObservers_def ceil_quotient_def
      Math_max_def Math_min_def Let_def)

text \<open>
  What \<^verbatim>\<open>getPaginationInfo\<close> reports for 47 employees at 25 a page, and for an empty
  view on page 1, whatever the page size is.
\<close>

lemma getPaginationInfo_first_page:
  assumes "length (filteredEmployees c) = 47" and "pageSize c = Fin 25"
    and "currentPage c = Fin 1"
  shows "getPaginationInfo c =
    \<lparr> pi_currentPage = Fin 1, pi_totalPages = Fin 2, pi_totalItems = Fin 47,
      pi_pageSize = Fin 25, pi_startIndex = Fin 1, pi_endIndex = Fin 25, pi_hasNext = True,
      pi_hasPrevious = False \<rparr>"
  using assms
  by (simp add: getPaginationInfo_def getTotalPages_def ceil_quotient_def num_sub_def
      num_mul_def Math_min_def Let_def)

lemma getPaginationInfo_second_page:
  assumes "length (filteredEmployees c) = 47" and "pageSize c = Fin 25"
    and "currentPage c = Fin 2"
  shows "getPaginationInfo c =
    \<lparr> pi_currentPage = Fin 2, pi_totalPages = Fin 2, pi_totalItems = Fin 47,
      pi_pageSize = Fin 25, pi_startIndex = Fin 26, pi_endIndex = Fin 47, pi_hasNext = False,
      pi_hasPrevious = True \<rparr>"
  using assms
  by (simp add: getPaginationInfo_def getTotalPages_def ceil_quotient_def num_sub_def
      num_mul_def Math_min_def Let_def)

lemma getPaginationInfo_empty_first_page:
  assumes "filteredEmployees c = []" and "currentPage c = Fin 1"
  shows "pi_startIndex (getPaginationInfo c) = Fin 0 \<and> pi_endIndex (getPaginationInfo c) = Fin 0 \<and>
         \<not> pi_hasNext (getPaginationInfo c) \<and> \<not> pi_hasPrevious (getPaginationInfo c)"
  using assms
  by (cases "pageSize c")
    (simp_all add: getPaginationInfo_def getTotalPages_def ceil_quotient_def Let_def)

text \<open>\<^verbatim>\<open>Employee.update\<close>, field by field.\<close>

lemma update_ignores_id_and_unknown_keys:
  "update (data \<lparr> u_id := i, u_other := ks \<rparr>) e = update data e"
  by (simp add: update_def)

lemma update_source_fields:
  "emp_id (update data e) = emp_id e"
  "name (update data e) = (case u_name data of None \<Rightarrow> name e | Some v \<Rightarrow> v)"
  "email (update data e) = (case u_email data of None \<Rightarrow> email e | Some v \<Rightarrow> v)"
  "phone (update data e) = (case u_phone data of None \<Rightarrow> phone e | Some v \<Rightarrow> v)"
  "department (update data e) = (case u_department data of None \<Rightarrow> department e | Some v \<Rightarrow> v)"
  "position (update data e) = (case u_position data of None \<Rightarrow> position e | Some v \<Rightarrow> v)"
  "salary (update data e) = (case u_salary data of None \<Rightarrow> salary e | Some v \<Rightarrow> v)"
  "hireDate (update data e) = (case u_hireDate data of None \<Rightarrow> hireDate e | Some v \<Rightarrow> v)"
  "isActive (update data e) = (case u_isActive data of None \<Rightarrow> isActive e | Some v \<Rightarrow> v)"
  by (simp_all add: update_def merge_def Let_def)

lemma update_derived_fields:
  "fullName (update data e) = name (update data e)"
  "displaySalary (update data e) = formatCurrency (salary (update data e))"
  "formattedPhone (update data e) = formatPhone (phone (update data e))"
  "avatar (update data e) = generateAvatar (name (update data e))"
  by (simp_all add: update_def merge_def Let_def)

section \<open>The claims\<close>

text \<open>
  C1. The claim: after every page-affecting mutation the current page lies between 1 and
  \<open>max 1 totalPages\<close>. \<^verbatim>\<open>removeEmployee\<close> does not keep it there: with two employees,
  one employee a page and page 2 shown, removing the second employee leaves one page and
  the current page 2.
\<close>

theorem removeEmployee_leaves_page_out_of_range:
  "(currentPage on_page_two, getTotalPages on_page_two,
    fst (removeEmployee (NumId 2) on_page_two),
    currentPage (snd (removeEmployee (NumId 2) on_page_two)),
    getTotalPages (snd (removeEmployee (NumId 2) on_page_two)))
   = (Fin 2, Fin 2, True, Fin 2, Fin 1)"
  by code_simp

text \<open>
  C2, as amended. \<^verbatim>\<open>setSearchTerm\<close> and \<^verbatim>\<open>setDepartmentFilters\<close> set the current
  page to 1, \<^verbatim>\<open>setSorting\<close> leaves the current page as it is; each of the three
  recomputes the view from the new query state and notifies the observers once.
\<close>

theorem query_operations_recompute_and_notify:
  "currentPage (setSearchTerm term c) = Fin 1 \<and>
   filteredEmployees (setSearchTerm term c) = view_of (c \<lparr> searchTerm := term \<rparr>) \<and>
   notified (setSearchTerm term c) = Suc (notified c) \<and>
   currentPage (setDepartmentFilters filters c) = Fin 1 \<and>
   filteredEmployees (setDepartmentFilters filters c)
     = view_of (c \<lparr> departmentFilters := (case filters of Some ds \<Rightarrow> ds | None \<Rightarrow> []) \<rparr>) \<and>
   notified (setDepartmentFilters filters c) = Suc (notified c) \<and>
   currentPage (setSorting field direction c) = currentPage c \<and>
   filteredEmployees (setSorting field direction c)
     = view_of (c \<lparr> sortField := field,
                     sortDirection := (case direction of None \<Rightarrow> ''asc'' | Some d \<Rightarrow> d) \<rparr>) \<and>
   notified (setSorting field direction c) = Suc (notified c)"
  by (simp add: setSearchTerm_def setDepartmentFilters_def setSorting_def applyFilters_view
      notifyObservers_def view_of_def)

text \<open>
  C2, the claim as stated fails: on page 2 of two pages, \<^verbatim>\<open>setSorting\<close> leaves the
  current page at 2.
\<close>

theorem setSorting_keeps_page:
  "currentPage on_page_two = Fin 2 \<and>
   currentPage (setSorting ''name'' (Some ''desc'') on_page_two) = Fin 2"
  by code_simp

text \<open>An instance of the amended C2 on the collection of two employees.\<close>

theorem query_operations_example:
  "currentPage (setSearchTerm ''ann'' two_people) = Fin 1 \<and>
   filteredEmployees (setSearchTerm ''ann'' two_people)
     = view_of (two_people \<lparr> searchTerm := ''ann'' \<rparr>) \<and>
   notified (setSearchTerm ''ann'' two_people) = Suc (notified two_people)"
  using query_operations_recompute_and_notify [of "''ann''" two_people] by simp

text \<open>
  C3, as amended. \<^verbatim>\<open>addEmployee\<close> fails with the duplicate-email error if and only if
  some stored employee, active or not, has the same email up to letter case.
\<close>

theorem addEmployee_duplicate_iff:
  "fst (addEmployee ev a c) = Inl DuplicateEmail \<longleftrightarrow>
     (\<exists>x \<in> set (employees c). toLowerCase (email x) = toLowerCase (email (to_Employee ev a)))"
  unfolding addEmployee_def Let_def findByEmail_iff [symmetric] by simp

text \<open>
  C3, the claim as stated fails: Ben is inactive and no active employee has his email,
  and adding an employee with that email fails.
\<close>

theorem addEmployee_inactive_duplicate:
  "fst (addEmployee (envs 2) (Data (person 3 ''Bob'' ''BEN@x.com'' ''Eng'')) ben_inactive)
     = Inl DuplicateEmail \<and>
   \<not> list_ex (\<lambda>x. isActive x \<and> toLowerCase (email x) = toLowerCase ''BEN@x.com'')
       (employees ben_inactive)"
  by code_simp

text \<open>An instance of the amended C3: Ann's email in capitals is a duplicate.\<close>

theorem addEmployee_duplicate_example:
  "(\<exists>x \<in> set (employees two_people).
      toLowerCase (email x)
        = toLowerCase (email (to_Employee (envs 2) (Data (person 3 ''Amy'' ''ANN@X.COM'' ''Eng''))))) \<and>
   fst (addEmployee (envs 2) (Data (person 3 ''Amy'' ''ANN@X.COM'' ''Eng'')) two_people)
     = Inl DuplicateEmail"
proof -
  have h: "\<exists>x \<in> set (employees two_people).
      toLowerCase (email x)
        = toLowerCase (email (to_Employee (envs 2) (Data (person 3 ''Amy'' ''ANN@X.COM'' ''Eng''))))"
    by code_simp
  then show ?thesis
    using addEmployee_duplicate_iff
      [of "envs 2" "Data (person 3 ''Amy'' ''ANN@X.COM'' ''Eng'')" two_people] by blast
qed

text \<open>
  C4. The claim: an update fails with the duplicate-email error only when the new email is
  that of a different employee, so that changing the letter case of an employee's own
  email succeeds. \<^verbatim>\<open>updateEmployee\<close> rejects that change: no other employee has Ann's
  email, and setting it in capitals fails and changes nothing.
\<close>

theorem updateEmployee_own_email_rejected:
  "updateEmployee (NumId 1) (no_update \<lparr> u_email := Some ''ANN@x.com'' \<rparr>) two_people
     = (Inl DuplicateEmail, two_people) \<and>
   list_all (\<lambda>emp. emp_id emp = NumId 1 \<or> toLowerCase (email emp) \<noteq> toLowerCase ''ANN@x.com'')
     (employees two_people)"
  by code_simp

text \<open>
  C5. Adding an employee whose email equals the email of a stored employee up to letter
  case fails with the duplicate-email error and returns the collection as it was: the
  employees, their order, the view and the count of notifications are those before the
  attempt.
\<close>

theorem addEmployee_duplicate_unchanged:
  assumes "\<exists>x \<in> set (employees c). toLowerCase (email x) = toLowerCase (email (to_Employee ev a))"
  shows "addEmployee ev a c = (Inl DuplicateEmail, c)"
  using assms unfolding addEmployee_def Let_def findByEmail_iff [symmetric] by simp

text \<open>An instance of C5: Ben's email in capitals, on the collection of two employees.\<close>

theorem addEmployee_duplicate_unchanged_example:
  "(\<exists>x \<in> set (employees two_people).
      toLowerCase (email x)
        = toLowerCase (email (to_Employee (envs 2) (Data (person 3 ''Bob'' ''BEN@X.COM'' ''Eng''))))) \<and>
   addEmployee (envs 2) (Data (person 3 ''Bob'' ''BEN@X.COM'' ''Eng'')) two_people
     = (Inl DuplicateEmail, two_people)"
proof -
  have h: "\<exists>x \<in> set (employees two_people).
      toLowerCase (email x)
        = toLowerCase (email (to_Employee (envs 2) (Data (person 3 ''Bob'' ''BEN@X.COM'' ''Eng''))))"
    by code_simp
  from addEmployee_duplicate_unchanged [OF h] h show ?thesis by blast
qed

text \<open>
  C6, as amended. After \<^verbatim>\<open>setSearchTerm\<close> the view holds exactly the active employees
  that match the term and pass the department filters: an employee matches a non-empty
  term if and only if the term, in lower case, is a substring of its name, email,
  department, position or phone in lower case, and the empty term matches every employee.
  On the employees Ann of Eng and Ben of Sales, the term \<^verbatim>\<open>eng\<close> yields Ann alone and
  the empty term yields both.
\<close>

theorem setSearchTerm_view:
  "mset (filteredEmployees (setSearchTerm term c))
     = mset (filter
         (\<lambda>e. isActive e \<and>
              (term = [] \<or>
               (\<exists>field \<in> set [name e, email e, department e, position e, phone e].
                  \<exists>p q. toLowerCase field = p @ toLowerCase term @ q)) \<and>
              (departmentFilters c = [] \<or> department e \<in> set (departmentFilters c)))
         (employees c)) \<and>
   filteredEmployees (setSearchTerm ''eng'' (ann_ben evs))
     = [new_Employee (evs 0) (named ''Ann'' ''Eng'')] \<and>
   filteredEmployees (setSearchTerm [] (ann_ben evs))
     = [new_Employee (evs 0) (named ''Ann'' ''Eng''), new_Employee (evs 1) (named ''Ben'' ''Sales'')]"
proof -
  have "filteredEmployees (setSearchTerm term c) = view_of (c \<lparr> searchTerm := term \<rparr>)"
    by (simp add: setSearchTerm_def applyFilters_view notifyObservers_def view_of_def)
  then have "mset (filteredEmployees (setSearchTerm term c))
     = mset (filter
         (\<lambda>e. isActive e \<and> matchesSearch e term \<and>
              (departmentFilters c = [] \<or> department e \<in> set (departmentFilters c)))
         (employees c))"
    by (simp add: view_of_def sortByProperty_def mset_sort_by)
  then have general: "mset (filteredEmployees (setSearchTerm term c))
     = mset (filter
         (\<lambda>e. isActive e \<and>
              (term = [] \<or>
               (\<exists>field \<in> set [name e, email e, department e, position e, phone e].
                  \<exists>p q. toLowerCase field = p @ toLowerCase term @ q)) \<and>
              (departmentFilters c = [] \<or> department e \<in> set (departmentFilters c)))
         (employees c))"
    by (simp only: matchesSearch_iff)
  have eng: "filteredEmployees (setSearchTerm ''eng'' (ann_ben evs))
     = [new_Employee (evs 0) (named ''Ann'' ''Eng'')]"
    by code_simp
  have empty: "filteredEmployees (setSearchTerm [] (ann_ben evs))
     = [new_Employee (evs 0) (named ''Ann'' ''Eng''), new_Employee (evs 1) (named ''Ben'' ''Sales'')]"
    by code_simp
  from general eng empty show ?thesis by blast
qed

text \<open>
  C6, the claim as stated fails: with the department filter \<^verbatim>\<open>Sales\<close> the empty term
  yields Ben alone, though Ann and Ben are active and match it.
\<close>

theorem setSearchTerm_department_filter:
  "map name (filteredEmployees
       (setSearchTerm [] (setDepartmentFilters (Some [''Sales'']) (ann_ben envs)))) = [''Ben''] \<and>
   map name (filter (\<lambda>e. isActive e \<and> matchesSearch e [])
       (employees (setSearchTerm [] (setDepartmentFilters (Some [''Sales'']) (ann_ben envs)))))
     = [''Ann'', ''Ben'']"
  by code_simp

text \<open>An instance of the amended C6: the term \<^verbatim>\<open>SAL\<close> on the collection of two employees.\<close>

theorem setSearchTerm_view_example:
  "mset (filteredEmployees (setSearchTerm ''SAL'' two_people))
     = mset (filter
         (\<lambda>e. isActive e \<and>
              (''SAL'' = [] \<or>
               (\<exists>field \<in> set [name e, email e, department e, position e, phone e].
                  \<exists>p q. toLowerCase field = p @ toLowerCase ''SAL'' @ q)) \<and>
              (departmentFilters two_people = [] \<or>
               department e \<in> set (departmentFilters two_people)))
         (employees two_people)) \<and>
   map name (filteredEmployees (setSearchTerm ''SAL'' two_people)) = [''Ben'']"
proof -
  have "map name (filteredEmployees (setSearchTerm ''SAL'' two_people)) = [''Ben'']"
    by code_simp
  then show ?thesis
    using setSearchTerm_view [of "''SAL''" two_people envs] by blast
qed




text \<open>
  C8. The claim: with 47 employees in the view and 25 a page there are 2 pages, page 1
  shows the indices 1 to 25 and page 2 the indices 26 to 47; and for an empty view the
  indices are zero and there is neither a next nor a previous page.
  \<^verbatim>\<open>getPaginationInfo\<close> reports a previous page for an empty view when the current
  page is stale: loading an empty array while page 2 is shown leaves no employee, the
  current page 2 and a previous page.
\<close>

theorem getPaginationInfo_empty_has_previous:
  "(length (filteredEmployees (loadEmployees envs [] on_page_two)),
    currentPage (loadEmployees envs [] on_page_two),
    pi_startIndex (getPaginationInfo (loadEmployees envs [] on_page_two)),
    pi_hasPrevious (getPaginationInfo (loadEmployees envs [] on_page_two)))
   = (0, Fin 2, Fin 0, True)"
  by code_simp

text \<open>
  C9. When the fetch of the users fails, \<^verbatim>\<open>fetchEmployees\<close> returns no error but the
  five fallback employees John Doe, Jane Smith, Mike Johnson, Sarah Wilson and David
  Brown, and \<^verbatim>\<open>validate\<close> accepts each of them with an empty list of errors.
\<close>

theorem fetchEmployees_fallback:
  "fetchEmployees rnd evs (Inl err) = Inr (getMockEmployees evs) \<and>
   map (\<lambda>e. (emp_id e, name e, email e, phone e, department e, position e, salary e,
             hireDate e, isActive e))
     (getMockEmployees evs)
   = [(NumId 1, ''John Doe'', ''john.doe@company.com'', ''(555) 123-4567'', ''Engineering'',
       ''Senior Software Engineer'', Some (JNum (Fin 95000)), ''2021-03-15T00:00:00.000Z'', True),
      (NumId 2, ''Jane Smith'', ''jane.smith@company.com'', ''(555) 234-5678'', ''Marketing'',
       ''Marketing Manager'', Some (JNum (Fin 75000)), ''2020-08-22T00:00:00.000Z'', True),
      (NumId 3, ''Mike Johnson'', ''mike.johnson@company.com'', ''(555) 345-6789'', ''Sales'',
       ''Sales Representative'', Some (JNum (Fin 60000)), ''2022-01-10T00:00:00.000Z'', True),
      (NumId 4, ''Sarah Wilson'', ''sarah.wilson@company.com'', ''(555) 456-7890'', ''HR'',
       ''HR Manager'', Some (JNum (Fin 70000)), ''2019-11-05T00:00:00.000Z'', True),
      (NumId 5, ''David Brown'', ''david.brown@company.com'', ''(555) 567-8901'', ''Finance'',
       ''Financial Analyst'', Some (JNum (Fin 65000)), ''2021-09-18T00:00:00.000Z'', True)] \<and>
   map validate (getMockEmployees evs) = [(True, []), (True, []), (True, []), (True, []), (True, [])]"
proof -
  have a: "fetchEmployees rnd evs (Inl err) = Inr (getMockEmployees evs)"
    by (simp add: fetchEmployees_def)
  have b: "map (\<lambda>e. (emp_id e, name e, email e, phone e, department e, position e, salary e,
             hireDate e, isActive e))
     (getMockEmployees evs)
   = [(NumId 1, ''John Doe'', ''john.doe@company.com'', ''(555) 123-4567'', ''Engineering'',
       ''Senior Software Engineer'', Some (JNum (Fin 95000)), ''2021-03-15T00:00:00.000Z'', True),
      (NumId 2, ''Jane Smith'', ''jane.smith@company.com'', ''(555) 234-5678'', ''Marketing'',
       ''Marketing Manager'', Some (JNum (Fin 75000)), ''2020-08-22T00:00:00.000Z'', True),
      (NumId 3, ''Mike Johnson'', ''mike.johnson@company.com'', ''(555) 345-6789'', ''Sales'',
       ''Sales Representative'', Some (JNum (Fin 60000)), ''2022-01-10T00:00:00.000Z'', True),
      (NumId 4, ''Sarah Wilson'', ''sarah.wilson@company.com'', ''(555) 456-7890'', ''HR'',
       ''HR Manager'', Some (JNum (Fin 70000)), ''2019-11-05T00:00:00.000Z'', True),
      (NumId 5, ''David Brown'', ''david.brown@company.com'', ''(555) 567-8901'', ''Finance'',
       ''Financial Analyst'', Some (JNum (Fin 65000)), ''2021-09-18T00:00:00.000Z'', True)]"
    by code_simp
  have c: "map validate (getMockEmployees evs)
             = [(True, []), (True, []), (True, []), (True, []), (True, [])]"
    by code_simp
  show ?thesis by (intro conjI) (rule a, rule b, rule c)
qed

text \<open>An instance of C9: a failed request, in the example environment.\<close>

theorem fetchEmployees_fallback_example:
  "fetchEmployees (\<lambda>k. example_draws) envs (Inl (RequestFailed ''Network request failed''))
     = Inr (getMockEmployees envs) \<and>
   map name (getMockEmployees envs)
     = [''John Doe'', ''Jane Smith'', ''Mike Johnson'', ''Sarah Wilson'', ''David Brown'']"
proof -
  have "map name (getMockEmployees envs)
          = [''John Doe'', ''Jane Smith'', ''Mike Johnson'', ''Sarah Wilson'', ''David Brown'']"
    by code_simp
  moreover have "fetchEmployees (\<lambda>k. example_draws) envs (Inl (RequestFailed ''Network request failed''))
     = Inr (getMockEmployees envs)"
    using fetchEmployees_fallback
      [of "\<lambda>k. example_draws" envs "RequestFailed ''Network request failed''"]
    by (rule conjunct1)
  ultimately show ?thesis by (intro conjI)
qed

text \<open>
  C10. \<^verbatim>\<open>Employee.update\<close> leaves the identifier as it is, whatever the data hold under
  \<^verbatim>\<open>id\<close> and under keys that the record does not own; every other source field takes the
  value of the data where the data name it and keeps its value where they do not; and the
  full name, the displayed salary, the formatted phone and the avatar are computed from
  the fields after the merge.
\<close>

theorem update_frame:
  "emp_id (update data e) = emp_id e \<and>
   update (data \<lparr> u_id := i, u_other := ks \<rparr>) e = update data e \<and>
   name (update data e) = (case u_name data of None \<Rightarrow> name e | Some v \<Rightarrow> v) \<and>
   email (update data e) = (case u_email data of None \<Rightarrow> email e | Some v \<Rightarrow> v) \<and>
   phone (update data e) = (case u_phone data of None \<Rightarrow> phone e | Some v \<Rightarrow> v) \<and>
   department (update data e) = (case u_department data of None \<Rightarrow> department e | Some v \<Rightarrow> v) \<and>
   position (update data e) = (case u_position data of None \<Rightarrow> position e | Some v \<Rightarrow> v) \<and>
   salary (update data e) = (case u_salary data of None \<Rightarrow> salary e | Some v \<Rightarrow> v) \<and>
   hireDate (update data e) = (case u_hireDate data of None \<Rightarrow> hireDate e | Some v \<Rightarrow> v) \<and>
   isActive (update data e) = (case u_isActive data of None \<Rightarrow> isActive e | Some v \<Rightarrow> v) \<and>
   fullName (update data e) = name (update data e) \<and>
   displaySalary (update data e) = formatCurrency (salary (update data e)) \<and>
   formattedPhone (update data e) = formatPhone (phone (update data e)) \<and>
   avatar (update data e) = generateAvatar (name (update data e))"
  by (intro conjI)
    (rule update_source_fields update_derived_fields update_ignores_id_and_unknown_keys)+

text \<open>
  An instance of C10: a new name, a new salary, an identifier and an unknown key, on the
  first fallback employee.
\<close>

theorem update_frame_example:
  "emp_id (update jo_update john) = NumId 1 \<and>
   displaySalary (update jo_update john) = ''$1,200''"
proof -
  have i: "emp_id john = NumId 1" by code_simp
  have f: "formatCurrency (salary (update jo_update john)) = ''$1,200''" by code_simp
  have "emp_id (update jo_update john) = emp_id john"
    using update_frame [where data = jo_update and e = john and i = None and ks = "[]"] by (rule conjunct1)
  moreover have "displaySalary (update jo_update john)
      = formatCurrency (salary (update jo_update john))"
    using update_frame [where data = jo_update and e = john and i = None and ks = "[]"] by simp
  ultimately show ?thesis using i f by simp
qed

end
